theory Spec2Isabelle
  imports Main
begin

section \<open>The command check of maddy: data model\<close>

text \<open>
  Source: \<^verbatim>\<open>check/command/command.go\<close>. Go strings are byte sequences, so they
  are modelled as \<^typ>\<open>string\<close> (a list of 8-bit characters).
\<close>

subsection \<open>Stages\<close>

type_synonym Stage = string

definition StageConnection :: Stage where "StageConnection = ''conn''"
definition StageSender :: Stage where "StageSender = ''sender''"
definition StageRcpt :: Stage where "StageRcpt = ''rcpt''"
definition StageBody :: Stage where "StageBody = ''body''"

subsection \<open>Errors, process states\<close>

text \<open>
  How a child process ended, as \<^verbatim>\<open>os.ProcessState\<close> reports it: a normal exit with
  an exit code, or termination by a signal.
\<close>

datatype proc_state = Exited int | Signaled int

text \<open>
  \<^verbatim>\<open>ProcessState.ExitCode()\<close> of the Go standard library: the exit code of an exited
  process, and -1 for a process that was terminated by a signal.
\<close>

fun ExitCode :: "proc_state \<Rightarrow> int" where
  "ExitCode (Exited n) = n"
| "ExitCode (Signaled sig) = - 1"

text \<open>
  The values of Go's \<^verbatim>\<open>error\<close> interface that the check tells apart:
  \<^verbatim>\<open>*exec.ExitError\<close> (which embeds the process state), \<^verbatim>\<open>io.EOF\<close>, and any other
  error with its text.
\<close>

datatype go_error = ExitError proc_state | EOF | OtherError string

subsection \<open>SMTP errors and check results\<close>

text \<open>
  \<^verbatim>\<open>exterrors.SMTPError\<close> and \<^verbatim>\<open>module.CheckResult\<close> are declared outside the source
  files; their fields are those that the source sets. The field \<^verbatim>\<open>Reason\<close> of the
  error is \<open>ErrReason\<close> here, a field left out of a literal has the zero value of its
  type, and the values of the map \<^verbatim>\<open>Misc\<close> are the strings and integers that the
  source stores. A header is the list of its fields. The quarantine flag of the result
  is the one an action sets.
\<close>

datatype misc_val = MStr string | MInt int

record SMTPError =
  Code :: int
  EnhancedCode :: "int \<times> int \<times> int"
  Message :: string
  CheckName :: string
  Err :: "go_error option"
  ErrReason :: string
  Misc :: "string \<rightharpoonup> misc_val"

type_synonym Header = "(string \<times> string) list"

record CheckResult =
  Reason :: "SMTPError option"
  Reject :: bool
  Quarantine :: bool
  Header :: Header

text \<open>The zero value \<^verbatim>\<open>module.CheckResult{}\<close>.\<close>

definition emptyResult :: CheckResult where
  "emptyResult = \<lparr>Reason = None, Reject = False, Quarantine = False, Header = []\<rparr>"

text \<open>
  Modelled from the spec: the type \<^verbatim>\<open>check.FailAction\<close>, whose declaration is not among
  the source files. The two flags are the fields that the source sets in \<^verbatim>\<open>New\<close>; the
  optional override of code, enhanced code and message is the one that the specification
  gives to every action.
\<close>

record FailAction =
  actQuarantine :: bool
  actReject :: bool
  actOverride :: "(int \<times> (int \<times> int \<times> int) \<times> string) option"

subsection \<open>Configuration and transaction state\<close>

record Check =
  instName :: string
  stage :: Stage
  actions :: "int \<rightharpoonup> FailAction"
  cmd :: string
  cmdArgs :: "string list"

text \<open>
  The remote address of a connection is a \<^verbatim>\<open>net.Addr\<close>; the check only asks whether
  it is a non-nil \<^verbatim>\<open>*net.TCPAddr\<close>, and then takes the text of its IP, which
  \<open>TCPAddr\<close> carries. The field \<open>RDNSName\<close> is what \<^verbatim>\<open>RDNSName.Get()\<close> returns
  when that is a string, and \<open>None\<close> when it is anything else.
\<close>

datatype net_addr = TCPAddr string | NilTCPAddr | OtherAddr

record ConnState =
  AuthUser :: string
  RemoteAddr :: net_addr
  Hostname :: string
  RDNSName :: "string option"

record MsgMetadata =
  Conn :: "ConnState option"
  ID :: string

record state =
  check :: Check
  msgMeta :: MsgMetadata
  mailFrom :: string
  rcpts :: "string list"

section \<open>Placeholder expansion\<close>

text \<open>The character class \<^verbatim>\<open>[a-zA-Z0-9_]\<close>.\<close>

definition isWordChar :: "char \<Rightarrow> bool" where
  "isWordChar ch =
     (let n = (of_char ch :: nat)
      in (97 \<le> n \<and> n \<le> 122) \<or> (65 \<le> n \<and> n \<le> 90) \<or> (48 \<le> n \<and> n \<le> 57) \<or> n = 95)"

text \<open>
  A match of \<^verbatim>\<open>placeholderRe\<close>, the expression \<^verbatim>\<open>{[a-zA-Z0-9_]+?}\<close>, at the start
  of a string: an opening brace, one or more word characters, a closing brace. Neither
  brace is a word character, so a match at a position is unique, and the lazy
  quantifier changes nothing. The result is the matched text and the rest of the string.
\<close>

fun matchPlaceholder :: "string \<Rightarrow> (string \<times> string) option" where
  "matchPlaceholder [] = None"
| "matchPlaceholder (ch # cs) =
     (if ch = CHR ''{'' then
        (case dropWhile isWordChar cs of
           [] \<Rightarrow> None
         | d # rest \<Rightarrow>
             if d = CHR ''}'' \<and> takeWhile isWordChar cs \<noteq> []
             then Some (ch # takeWhile isWordChar cs @ [d], rest)
             else None)
      else None)"

text \<open>
  \<^verbatim>\<open>placeholderRe.ReplaceAllStringFunc(src, repl)\<close>: the matches are found from left
  to right and do not overlap; each is replaced by \<open>repl\<close> of the matched text, and
  the text between matches is copied.
\<close>

function ReplaceAllStringFunc :: "string \<Rightarrow> (string \<Rightarrow> string) \<Rightarrow> string" where
  "ReplaceAllStringFunc [] repl = []"
| "ReplaceAllStringFunc (ch # cs) repl =
     (case matchPlaceholder (ch # cs) of
        Some (m, rest) \<Rightarrow> repl m @ ReplaceAllStringFunc rest repl
      | None \<Rightarrow> ch # ReplaceAllStringFunc cs repl)"
  by pat_completeness auto
termination
proof (relation "measure (\<lambda>(src, repl). length src)")
  show "wf (measure (\<lambda>(src, repl :: string \<Rightarrow> string). length src))"
    by simp
next
  fix ch :: char and cs :: string and repl :: "string \<Rightarrow> string" and x2 m rest
  assume "matchPlaceholder (ch # cs) = Some x2" and "(m, rest) = x2"
  then have "\<exists>d. dropWhile isWordChar cs = d # rest"
    by (auto split: if_splits list.splits)
  then obtain d where "dropWhile isWordChar cs = d # rest"
    by blast
  then have "Suc (length rest) = length (dropWhile isWordChar cs)"
    by simp
  also have "\<dots> \<le> length cs"
    by (rule length_dropWhile_le)
  finally show "((rest, repl), ch # cs, repl) \<in> measure (\<lambda>(src, repl). length src)"
    by simp
next
  fix ch :: char and cs :: string and repl :: "string \<Rightarrow> string"
  show "((cs, repl), ch # cs, repl) \<in> measure (\<lambda>(src, repl). length src)"
    by simp
qed

text \<open>\<^verbatim>\<open>strings.Join\<close>.\<close>

fun Join :: "string list \<Rightarrow> string \<Rightarrow> string" where
  "Join [] sep = []"
| "Join [x] sep = x"
| "Join (x # y # ys) sep = x @ sep @ Join (y # ys) sep"

text \<open>
  The function literal that \<^verbatim>\<open>expandCommand\<close> passes to \<^verbatim>\<open>ReplaceAllStringFunc\<close>:
  the \<^verbatim>\<open>switch\<close> over the matched placeholder, the cases in the order of the source.
\<close>

definition expandPlaceholder :: "state \<Rightarrow> string \<Rightarrow> string \<Rightarrow> string" where
  "expandPlaceholder s address placeholder =
     (if placeholder = ''{auth_user}'' then
        (case Conn (msgMeta s) of None \<Rightarrow> [] | Some cn \<Rightarrow> AuthUser cn)
      else if placeholder = ''{source_ip}'' then
        (case Conn (msgMeta s) of
           None \<Rightarrow> []
         | Some cn \<Rightarrow> (case RemoteAddr cn of TCPAddr ip \<Rightarrow> ip | NilTCPAddr \<Rightarrow> [] | OtherAddr \<Rightarrow> []))
      else if placeholder = ''{source_host}'' then
        (case Conn (msgMeta s) of None \<Rightarrow> [] | Some cn \<Rightarrow> Hostname cn)
      else if placeholder = ''{source_rdns}'' then
        (case Conn (msgMeta s) of
           None \<Rightarrow> []
         | Some cn \<Rightarrow>
             (let val = (case RDNSName cn of Some v \<Rightarrow> v | None \<Rightarrow> [])
              in if val = [] then [] else []))
      else if placeholder = ''{msg_id}'' then ID (msgMeta s)
      else if placeholder = ''{sender}'' then mailFrom s
      else if placeholder = ''{rcpts}'' then Join (rcpts s) [CHR 0x0A]
      else if placeholder = ''{address}'' then address
      else placeholder)"

definition expandArg :: "state \<Rightarrow> string \<Rightarrow> string \<Rightarrow> string" where
  "expandArg s address arg = ReplaceAllStringFunc arg (expandPlaceholder s address)"

definition expandCommand :: "state \<Rightarrow> string \<Rightarrow> string \<times> string list" where
  "expandCommand s address = (cmd (check s), map (expandArg s address) (cmdArgs (check s)))"

section \<open>Configuration\<close>

text \<open>
  \<^verbatim>\<open>New\<close>: the table of actions starts with the entries for the exit codes 1 and 2;
  the first inline argument is the command, the others are its argument templates.
  Without an inline argument \<^verbatim>\<open>New\<close> fails. The stage is still the zero value.
\<close>

definition New :: "string \<Rightarrow> string \<Rightarrow> string list \<Rightarrow> string list \<Rightarrow> go_error + Check" where
  "New modName inst aliases inlineArgs =
     (case inlineArgs of
        [] \<Rightarrow> Inl (OtherError ''command: at least one argument is required (command name)'')
      | a # as \<Rightarrow>
          Inr \<lparr>instName = inst, stage = [],
               actions = [1 \<mapsto> \<lparr>actQuarantine = False, actReject = True, actOverride = None\<rparr>,
                          2 \<mapsto> \<lparr>actQuarantine = True, actReject = False, actOverride = None\<rparr>],
               cmd = a, cmdArgs = as\<rparr>)"

text \<open>
  What \<^verbatim>\<open>Init\<close> gets from outside this file: the result of \<^verbatim>\<open>exec.LookPath\<close>
  (the text of its error, if any), the result of \<^verbatim>\<open>cfg.Process()\<close> (an error, or the
  value of \<^verbatim>\<open>run_on\<close>, which is \<^verbatim>\<open>body\<close> when the directive is absent, with the
  directives the configuration layer does not know), \<^verbatim>\<open>strconv.Atoi\<close> and
  \<^verbatim>\<open>check.ParseActionDirective\<close> (a value, or the text of an error), and
  \<^verbatim>\<open>config.NodeErr\<close>, which makes an error for a directive from a message.
\<close>

record config_node =
  nodeName :: string
  nodeArgs :: "string list"

record init_env =
  lookPathErr :: "string \<Rightarrow> string option"
  processRes :: "go_error + (Stage \<times> config_node list)"
  Atoi :: "string \<Rightarrow> string + int"
  ParseActionDirective :: "string list \<Rightarrow> string + FailAction"
  NodeErr :: "config_node \<Rightarrow> string \<Rightarrow> go_error"

text \<open>
  The loop of \<^verbatim>\<open>Init\<close> over the unknown directives. Every error of a directive is
  made by \<^verbatim>\<open>config.NodeErr\<close>: from a fixed message, or from the text of the error of
  the conversion (the format \<^verbatim>\<open>%v\<close>).
\<close>

fun initNodes :: "init_env \<Rightarrow> Check \<Rightarrow> config_node list \<Rightarrow> go_error + Check" where
  "initNodes env c [] = Inr c"
| "initNodes env c (node # nodes) =
     (if nodeName node = ''code'' then
        (case nodeArgs node of
           a0 # a1 # as \<Rightarrow>
             (case Atoi env a0 of
                Inl e \<Rightarrow> Inl (NodeErr env node e)
              | Inr exitCode \<Rightarrow>
                  (case ParseActionDirective env (a1 # as) of
                     Inl e \<Rightarrow> Inl (NodeErr env node e)
                   | Inr action \<Rightarrow>
                       initNodes env (c\<lparr>actions := (actions c)(exitCode \<mapsto> action)\<rparr>) nodes))
         | _ \<Rightarrow> Inl (NodeErr env node ''at least two arguments are required: <code> <action>''))
      else Inl (NodeErr env node (''unexpected directive: '' @ nodeName node)))"

text \<open>
  \<^verbatim>\<open>Init\<close>. An error of \<^verbatim>\<open>exec.LookPath\<close> is wrapped by
  \<^verbatim>\<open>fmt.Errorf("command: %w", err)\<close>, an error whose text is the prefix and the text of
  the wrapped error; an error of \<^verbatim>\<open>cfg.Process()\<close> is returned as it is.
\<close>

definition Init :: "init_env \<Rightarrow> Check \<Rightarrow> go_error + Check" where
  "Init env c =
     (case lookPathErr env (cmd c) of
        Some e \<Rightarrow> Inl (OtherError (''command: '' @ e))
      | None \<Rightarrow>
          (case processRes env of
             Inl e \<Rightarrow> Inl e
           | Inr (st, unknown) \<Rightarrow> initNodes env (c\<lparr>stage := st\<rparr>) unknown))"

definition CheckStateForMsg :: "Check \<Rightarrow> MsgMetadata \<Rightarrow> state" where
  "CheckStateForMsg c meta = \<lparr>check = c, msgMeta = meta, mailFrom = [], rcpts = []\<rparr>"

section \<open>Running the command and classifying its outcome\<close>

text \<open>
  Modelled from the spec: \<^verbatim>\<open>check.FailAction.Apply\<close>, which is not among the source
  files. The specification says of the matched action that a pass-through action
  converts the default rejection back to success, that a reject action keeps the
  permanent rejection, optionally with the action's own code and message, and that a
  quarantine action marks the message for quarantine instead of rejection while still
  signalling the underlying cause. Nothing else of the result is touched. In the
  specification an action is one of the three; a value with both flags sets both.
\<close>

definition overrideReason :: "FailAction \<Rightarrow> SMTPError option \<Rightarrow> SMTPError option" where
  "overrideReason a r =
     (case (actOverride a, r) of
        (Some (cd, enh, msg), Some e) \<Rightarrow> Some (e\<lparr>Code := cd, EnhancedCode := enh, Message := msg\<rparr>)
      | _ \<Rightarrow> r)"

definition Apply :: "FailAction \<Rightarrow> CheckResult \<Rightarrow> CheckResult" where
  "Apply a res =
     (if actReject a \<or> actQuarantine a
      then res\<lparr>Reason := overrideReason a (Reason res),
               Reject := actReject a, Quarantine := actQuarantine a\<rparr>
      else res\<lparr>Reason := None, Reject := False, Quarantine := False\<rparr>)"

text \<open>The error that all the failures of the infrastructure share.\<close>

definition internalError :: "go_error \<Rightarrow> string \<Rightarrow> SMTPError" where
  "internalError e cmdLine =
     \<lparr>Code = 450, EnhancedCode = (0, 0, 0), Message = ''Internal server error'',
      CheckName = ''command'', Err = Some e, ErrReason = [],
      Misc = [''cmd'' \<mapsto> MStr cmdLine]\<rparr>"

text \<open>
  \<^verbatim>\<open>errorRes\<close>: an error that is not an \<^verbatim>\<open>*exec.ExitError\<close>; an exit code without an
  entry in the table; an exit code with an entry, whose action is applied to the
  rejection with code 550.
\<close>

definition errorRes :: "state \<Rightarrow> go_error \<Rightarrow> CheckResult \<Rightarrow> string \<Rightarrow> CheckResult" where
  "errorRes s e res cmdLine =
     (case e of
        ExitError ps \<Rightarrow>
          (case actions (check s) (ExitCode ps) of
             None \<Rightarrow>
               res\<lparr>Reason := Some \<lparr>Code = 450, EnhancedCode = (0, 0, 0),
                                    Message = ''Internal server error'',
                                    CheckName = ''command'', Err = Some e,
                                    ErrReason = ''unexpected exit code'',
                                    Misc = [''cmd'' \<mapsto> MStr cmdLine,
                                            ''exit_code'' \<mapsto> MInt (ExitCode ps)]\<rparr>,
                   Reject := True\<rparr>
           | Some action \<Rightarrow>
               Apply action
                 (res\<lparr>Reason := Some \<lparr>Code = 550, EnhancedCode = (5, 7, 1),
                                       Message = ''Message rejected for due to a local policy'',
                                       CheckName = ''command'', Err = None, ErrReason = [],
                                       Misc = [''cmd'' \<mapsto> MStr cmdLine,
                                               ''exit_code'' \<mapsto> MInt (ExitCode ps)]\<rparr>\<rparr>))
      | _ \<Rightarrow> res\<lparr>Reason := Some (internalError e cmdLine), Reject := True\<rparr>)"

text \<open>
  What one invocation meets outside this file: whether \<^verbatim>\<open>StdoutPipe\<close> and
  \<^verbatim>\<open>Start\<close> fail, what \<^verbatim>\<open>textproto.ReadHeader\<close> returns for the output of the child
  (a header with an optional error; for an output that ends before the blank line the
  error is \<^verbatim>\<open>io.EOF\<close>), the result of waiting for the process, the error of copying
  the input to the child, and the text of \<^verbatim>\<open>cmd.String()\<close>.
\<close>

record proc =
  stdoutPipeErr :: "go_error option"
  startErr :: "go_error option"
  readHeaderRes :: "Header \<times> go_error option"
  waitRes :: "string + proc_state"
  copyErr :: "string option"
  cmdString :: string

text \<open>
  \<^verbatim>\<open>cmd.Wait()\<close> of \<^verbatim>\<open>os/exec\<close>: the error of waiting itself; otherwise an
  \<^verbatim>\<open>*exec.ExitError\<close> for every process state that is not a success, which is
  an exit with code 0; otherwise the error of copying, if any. The errors of waiting
  and of copying come from the operating system and are never an \<^verbatim>\<open>*exec.ExitError\<close>.
\<close>

definition cmdWait :: "proc \<Rightarrow> go_error option" where
  "cmdWait p =
     (case waitRes p of
        Inl e \<Rightarrow> Some (OtherError e)
      | Inr ps \<Rightarrow>
          if ps \<noteq> Exited 0 then Some (ExitError ps)
          else (case copyErr p of None \<Rightarrow> None | Some e \<Rightarrow> Some (OtherError e)))"

text \<open>
  \<^verbatim>\<open>run\<close>, for the behaviour \<open>p\<close> of the process it starts. The name, the
  arguments and the input of the command reach the result only through \<open>p\<close>. An
  error of \<^verbatim>\<open>ReadHeader\<close> that is \<^verbatim>\<open>io.EOF\<close> counts as no error. The deferred
  interrupt signal to the process does not change the result.
\<close>

definition run :: "state \<Rightarrow> proc \<Rightarrow> CheckResult" where
  "run s p =
     (case stdoutPipeErr p of
        Some e \<Rightarrow> emptyResult\<lparr>Reason := Some (internalError e (cmdString p)), Reject := True\<rparr>
      | None \<Rightarrow>
          (case startErr p of
             Some e \<Rightarrow> emptyResult\<lparr>Reason := Some (internalError e (cmdString p)), Reject := True\<rparr>
           | None \<Rightarrow>
               (case readHeaderRes p of
                  (hdr, rerr) \<Rightarrow>
                    (case (case rerr of None \<Rightarrow> None
                                      | Some e \<Rightarrow> if e = EOF then None else Some e) of
                       Some e \<Rightarrow>
                         emptyResult\<lparr>Reason := Some (internalError e (cmdString p)),
                                     Reject := True\<rparr>
                     | None \<Rightarrow>
                         (let res = emptyResult\<lparr>Header := hdr\<rparr>
                          in case cmdWait p of
                               Some e \<Rightarrow> errorRes s e res (cmdString p)
                             | None \<Rightarrow> res)))))"

section \<open>The stage methods\<close>

text \<open>
  An invocation is the call of \<^verbatim>\<open>run\<close> with a command name, its arguments and the
  bytes of its standard input. The operating system is a function from the invocation to
  the behaviour of the process. Every stage method returns its result, the state after
  it, and the invocations it made.
\<close>

type_synonym invocation = "string \<times> string list \<times> string"

type_synonym os = "invocation \<Rightarrow> proc"

definition CheckConnection :: "os \<Rightarrow> state \<Rightarrow> CheckResult \<times> state \<times> invocation list" where
  "CheckConnection sys s =
     (if stage (check s) \<noteq> StageConnection then (emptyResult, s, [])
      else
        (case expandCommand s [] of
           (cmdName, args) \<Rightarrow> (run s (sys (cmdName, args, [])), s, [(cmdName, args, [])])))"

definition CheckSender :: "os \<Rightarrow> state \<Rightarrow> string \<Rightarrow> CheckResult \<times> state \<times> invocation list" where
  "CheckSender sys s0 addr =
     (let s = s0\<lparr>mailFrom := addr\<rparr>
      in if stage (check s) \<noteq> StageSender then (emptyResult, s, [])
         else
           (case expandCommand s addr of
              (cmdName, args) \<Rightarrow> (run s (sys (cmdName, args, [])), s, [(cmdName, args, [])])))"

definition CheckRcpt :: "os \<Rightarrow> state \<Rightarrow> string \<Rightarrow> CheckResult \<times> state \<times> invocation list" where
  "CheckRcpt sys s0 addr =
     (let s = s0\<lparr>rcpts := rcpts s0 @ [addr]\<rparr>
      in if stage (check s) \<noteq> StageRcpt then (emptyResult, s, [])
         else
           (case expandCommand s addr of
              (cmdName, args) \<Rightarrow> (run s (sys (cmdName, args, [])), s, [(cmdName, args, [])])))"

text \<open>
  The body of a message is a \<^verbatim>\<open>buffer.Buffer\<close>: opening it fails or gives its bytes.
  \<^verbatim>\<open>textproto.WriteHeader\<close> is a parameter.
\<close>

type_synonym buffer = "go_error + string"

definition CheckBody ::
  "os \<Rightarrow> (Header \<Rightarrow> string) \<Rightarrow> state \<Rightarrow> Header \<Rightarrow> buffer \<Rightarrow> CheckResult \<times> state \<times> invocation list" where
  "CheckBody sys WriteHeader s hdr body =
     (if stage (check s) \<noteq> StageBody then (emptyResult, s, [])
      else
        (case expandCommand s [] of
           (cmdName, args) \<Rightarrow>
             (case body of
                Inl e \<Rightarrow>
                  (emptyResult\<lparr>Reason := Some (internalError e (cmdName @ '' '' @ Join args '' '')),
                               Reject := True\<rparr>, s, [])
              | Inr bytes \<Rightarrow>
                  (run s (sys (cmdName, args, WriteHeader hdr @ bytes)), s,
                   [(cmdName, args, WriteHeader hdr @ bytes)]))))"

text \<open>The events of one transaction, and the transaction as the run of its events.\<close>

datatype event = EvConnection | EvSender string | EvRcpt string | EvBody Header buffer

fun handle ::
  "os \<Rightarrow> (Header \<Rightarrow> string) \<Rightarrow> state \<Rightarrow> event \<Rightarrow> CheckResult \<times> state \<times> invocation list" where
  "handle sys wh s EvConnection = CheckConnection sys s"
| "handle sys wh s (EvSender addr) = CheckSender sys s addr"
| "handle sys wh s (EvRcpt addr) = CheckRcpt sys s addr"
| "handle sys wh s (EvBody hdr body) = CheckBody sys wh s hdr body"

fun transaction ::
  "os \<Rightarrow> (Header \<Rightarrow> string) \<Rightarrow> state \<Rightarrow> event list \<Rightarrow> CheckResult list \<times> state \<times> invocation list" where
  "transaction sys wh s [] = ([], s, [])"
| "transaction sys wh s (ev # evs) =
     (case handle sys wh s ev of
        (res, s', invs) \<Rightarrow>
          (case transaction sys wh s' evs of
             (ress, s'', invs') \<Rightarrow> (res # ress, s'', invs @ invs')))"

section \<open>Notions used in the statements\<close>

text \<open>A string is a placeholder when the expression matches all of it.\<close>

definition isPlaceholder :: "string \<Rightarrow> bool" where
  "isPlaceholder p = (matchPlaceholder p = Some (p, []))"

text \<open>
  An invocation reaches the wait with the header \<open>hdr\<close>: the pipe and the start
  succeed, and \<^verbatim>\<open>ReadHeader\<close> returns \<open>hdr\<close> with no error or with \<^verbatim>\<open>io.EOF\<close>.
\<close>

definition reachesWait :: "proc \<Rightarrow> Header \<Rightarrow> bool" where
  "reachesWait p hdr =
     (stdoutPipeErr p = None \<and> startErr p = None \<and> fst (readHeaderRes p) = hdr \<and>
      (snd (readHeaderRes p) = None \<or> snd (readHeaderRes p) = Some EOF))"

text \<open>The stage an event belongs to, and the recipients among a list of events.\<close>

fun evStage :: "event \<Rightarrow> Stage" where
  "evStage EvConnection = StageConnection"
| "evStage (EvSender addr) = StageSender"
| "evStage (EvRcpt addr) = StageRcpt"
| "evStage (EvBody hdr body) = StageBody"

fun rcptAddrs :: "event list \<Rightarrow> string list" where
  "rcptAddrs [] = []"
| "rcptAddrs (EvRcpt addr # evs) = addr # rcptAddrs evs"
| "rcptAddrs (ev # evs) = rcptAddrs evs"

definition stateAfter :: "os \<Rightarrow> (Header \<Rightarrow> string) \<Rightarrow> state \<Rightarrow> event list \<Rightarrow> state" where
  "stateAfter sys wh s evs = fst (snd (transaction sys wh s evs))"

definition invocations :: "os \<Rightarrow> (Header \<Rightarrow> string) \<Rightarrow> state \<Rightarrow> event list \<Rightarrow> invocation list" where
  "invocations sys wh s evs = snd (snd (transaction sys wh s evs))"

section \<open>Concrete inputs\<close>

definition rejectAction :: FailAction where
  "rejectAction = \<lparr>actQuarantine = False, actReject = True, actOverride = None\<rparr>"

definition quarantineAction :: FailAction where
  "quarantineAction = \<lparr>actQuarantine = True, actReject = False, actOverride = None\<rparr>"

definition exConn :: ConnState where
  "exConn = \<lparr>AuthUser = ''alice'', RemoteAddr = TCPAddr ''192.0.2.7'', Hostname = ''client.test'',
             RDNSName = Some ''mx.example.org''\<rparr>"

definition exMeta :: MsgMetadata where
  "exMeta = \<lparr>Conn = Some exConn, ID = ''msg1''\<rparr>"

text \<open>A check on a stage with argument templates, and its fresh transaction state.\<close>

definition exCheck :: "Stage \<Rightarrow> string list \<Rightarrow> Check" where
  "exCheck st args =
     \<lparr>instName = ''chk'', stage = st, actions = [1 \<mapsto> rejectAction, 2 \<mapsto> quarantineAction],
      cmd = ''/usr/bin/check'', cmdArgs = args\<rparr>"

definition exState :: "Stage \<Rightarrow> string list \<Rightarrow> state" where
  "exState st args = CheckStateForMsg (exCheck st args) exMeta"

text \<open>A process that starts, writes the header \<open>hdr\<close> and ends in the state \<open>ps\<close>.\<close>

definition exProc :: "Header \<Rightarrow> proc_state \<Rightarrow> proc" where
  "exProc hdr ps =
     \<lparr>stdoutPipeErr = None, startErr = None, readHeaderRes = (hdr, None),
      waitRes = Inr ps, copyErr = None, cmdString = ''/usr/bin/check''\<rparr>"

text \<open>A process that writes nothing: \<^verbatim>\<open>ReadHeader\<close> gives no field and \<^verbatim>\<open>io.EOF\<close>.\<close>

definition exSilentProc :: "proc_state \<Rightarrow> proc" where
  "exSilentProc ps = (exProc [] ps)\<lparr>readHeaderRes := ([], Some EOF)\<rparr>"

text \<open>An operating system where every command writes nothing and exits with code 0.\<close>

definition exOs :: os where
  "exOs call = exSilentProc (Exited 0)"

definition exWriteHeader :: "Header \<Rightarrow> string" where
  "exWriteHeader hdr = concat (map (\<lambda>(k, v). k @ '': '' @ v @ [CHR 0x0D, CHR 0x0A]) hdr) @ [CHR 0x0D, CHR 0x0A]"

text \<open>A configuration without directives of its own, with the stage \<open>st\<close>.\<close>

definition exInitEnv :: "Stage \<Rightarrow> init_env" where
  "exInitEnv st =
     \<lparr>lookPathErr = (\<lambda>name. None), processRes = Inr (st, []),
      Atoi = (\<lambda>a. Inl ''invalid syntax''),
      ParseActionDirective = (\<lambda>as. Inl ''unknown action''),
      NodeErr = (\<lambda>node msg. OtherError (nodeName node @ '': '' @ msg))\<rparr>"

section \<open>Properties of the placeholder expansion\<close>

lemma isWordChar_lbrace: "\<not> isWordChar CHR ''{''" by (simp add: isWordChar_def)
lemma isWordChar_rbrace: "\<not> isWordChar CHR ''}''" by (simp add: isWordChar_def)

lemma matchPlaceholder_append:
  assumes "matchPlaceholder a = Some (m, rest)"
  shows "matchPlaceholder (a @ x) = Some (m, rest @ x)"
proof (cases a)
  case Nil
  with assms show ?thesis by simp
next
  case (Cons ch cs)
  with assms obtain d where d: "dropWhile isWordChar cs = d # rest" "ch = CHR ''{''"
     "d = CHR ''}''" "takeWhile isWordChar cs \<noteq> []" "m = ch # takeWhile isWordChar cs @ [d]"
    by (auto split: if_splits list.splits)
  from d(1) have "d \<in> set cs" "\<not> isWordChar d"
    using set_dropWhileD[of d isWordChar cs] hd_dropWhile[of isWordChar cs] by auto
  then have "dropWhile isWordChar (cs @ x) = dropWhile isWordChar cs @ x"
    "takeWhile isWordChar (cs @ x) = takeWhile isWordChar cs"
    by (simp_all add: dropWhile_append1 takeWhile_append1)
  with d Cons show ?thesis by simp
qed

lemma matchPlaceholder_append_None:
  assumes "matchPlaceholder (ch # cs) = None" and "x = [] \<or> hd x = CHR ''{''"
  shows "matchPlaceholder ((ch # cs) @ x) = None"
proof (cases "ch = CHR ''{''")
  case False
  then show ?thesis by simp
next
  case True
  have x: "dropWhile isWordChar x = x"
    using assms(2) isWordChar_lbrace by (cases x) auto
  show ?thesis
  proof (cases "dropWhile isWordChar cs")
    case Nil
    then have allw: "\<forall>c\<in>set cs. isWordChar c" by (simp add: dropWhile_eq_Nil_conv)
    show ?thesis
      using True allw x assms(2) by (auto split: list.splits)
  next
    case (Cons d rest)
    then have "d \<in> set cs" "\<not> isWordChar d"
      using set_dropWhileD[of d isWordChar cs] hd_dropWhile[of isWordChar cs] by auto
    then have "dropWhile isWordChar (cs @ x) = dropWhile isWordChar cs @ x"
      "takeWhile isWordChar (cs @ x) = takeWhile isWordChar cs"
      by (simp_all add: dropWhile_append1 takeWhile_append1)
    with assms(1) True Cons show ?thesis
      by (auto split: if_splits)
  qed
qed

lemma isPlaceholder_hd: "isPlaceholder p \<Longrightarrow> \<exists>cs. p = CHR ''{'' # cs"
  unfolding isPlaceholder_def by (cases p) (auto split: if_splits)

lemma ReplaceAllStringFunc_placeholder:
  assumes "isPlaceholder p"
  shows "ReplaceAllStringFunc (a @ p @ b) repl =
         ReplaceAllStringFunc a repl @ repl p @ ReplaceAllStringFunc b repl"
proof (induction a repl rule: ReplaceAllStringFunc.induct)
  case (1 repl)
  from assms obtain cs where p: "p = CHR ''{'' # cs" using isPlaceholder_hd by blast
  from assms have "matchPlaceholder (p @ b) = Some (p, [] @ b)"
    unfolding isPlaceholder_def by (rule matchPlaceholder_append)
  with p show ?case by simp
next
  case (2 ch cs repl)
  from assms obtain ps where p: "p = CHR ''{'' # ps" using isPlaceholder_hd by blast
  show ?case
  proof (cases "matchPlaceholder (ch # cs)")
    case None
    then have "matchPlaceholder ((ch # cs) @ p @ b) = None"
      by (rule matchPlaceholder_append_None) (simp add: p)
    moreover have "ReplaceAllStringFunc (cs @ p @ b) repl =
        ReplaceAllStringFunc cs repl @ repl p @ ReplaceAllStringFunc b repl"
      using 2(1)[OF None] .
    ultimately show ?thesis
      using None by (simp del: matchPlaceholder.simps)
  next
    case (Some mr)
    obtain m rest where mr: "mr = (m, rest)" by (cases mr)
    with Some have "matchPlaceholder ((ch # cs) @ p @ b) = Some (m, rest @ p @ b)"
      using matchPlaceholder_append[of "ch # cs" m rest "p @ b"] by simp
    moreover have "ReplaceAllStringFunc (rest @ p @ b) repl =
        ReplaceAllStringFunc rest repl @ repl p @ ReplaceAllStringFunc b repl"
      using 2(2)[OF Some mr[symmetric]] .
    ultimately show ?thesis
      using Some mr by (simp del: matchPlaceholder.simps)
  qed
qed

lemma ReplaceAllStringFunc_no_brace:
  "CHR ''{'' \<notin> set t \<Longrightarrow> ReplaceAllStringFunc t repl = t"
  by (induction t) auto

text \<open>
  Around a placeholder \<open>p\<close>, that is a brace, word characters and a brace, the
  expansion of an argument is the expansion of the text before it, the value of \<open>p\<close>,
  and the expansion of the text after it. The value is the one of the case of the
  switch for each token that the switch knows, always empty for \<^verbatim>\<open>{source_rdns}\<close>,
  and \<open>p\<close> itself, unchanged, for every other placeholder.
\<close>

lemma expandArg_around_placeholder:
  assumes "isPlaceholder p"
  shows "expandArg s addr (a @ p @ b) =
           expandArg s addr a @
           (if p = ''{auth_user}'' then
              (case Conn (msgMeta s) of None \<Rightarrow> [] | Some cn \<Rightarrow> AuthUser cn)
            else if p = ''{source_ip}'' then
              (case Conn (msgMeta s) of
                 None \<Rightarrow> []
               | Some cn \<Rightarrow> (case RemoteAddr cn of TCPAddr ip \<Rightarrow> ip | _ \<Rightarrow> []))
            else if p = ''{source_host}'' then
              (case Conn (msgMeta s) of None \<Rightarrow> [] | Some cn \<Rightarrow> Hostname cn)
            else if p = ''{source_rdns}'' then []
            else if p = ''{msg_id}'' then ID (msgMeta s)
            else if p = ''{sender}'' then mailFrom s
            else if p = ''{rcpts}'' then Join (rcpts s) [CHR 0x0A]
            else if p = ''{address}'' then addr
            else p) @
           expandArg s addr b"
proof -
  have "expandPlaceholder s addr p =
          (if p = ''{auth_user}'' then
              (case Conn (msgMeta s) of None \<Rightarrow> [] | Some cn \<Rightarrow> AuthUser cn)
            else if p = ''{source_ip}'' then
              (case Conn (msgMeta s) of
                 None \<Rightarrow> []
               | Some cn \<Rightarrow> (case RemoteAddr cn of TCPAddr ip \<Rightarrow> ip | _ \<Rightarrow> []))
            else if p = ''{source_host}'' then
              (case Conn (msgMeta s) of None \<Rightarrow> [] | Some cn \<Rightarrow> Hostname cn)
            else if p = ''{source_rdns}'' then []
            else if p = ''{msg_id}'' then ID (msgMeta s)
            else if p = ''{sender}'' then mailFrom s
            else if p = ''{rcpts}'' then Join (rcpts s) [CHR 0x0A]
            else if p = ''{address}'' then addr
            else p)"
    by (simp add: expandPlaceholder_def split: option.splits net_addr.splits)
  then show ?thesis
    using ReplaceAllStringFunc_placeholder[OF assms, of a b "expandPlaceholder s addr"]
    by (simp add: expandArg_def)
qed

text \<open>
  An argument in which the expression matches at no position, such as one without an
  opening brace or the text \<^verbatim>\<open>{foo-bar}\<close>, is its own expansion.
\<close>

lemma expandArg_no_match:
  "(\<And>n. matchPlaceholder (drop n t) = None) \<Longrightarrow> expandArg s addr t = t"
proof (induction t)
  case Nil
  show ?case by (simp add: expandArg_def)
next
  case (Cons ch cs)
  have "matchPlaceholder (drop n cs) = None" for n
    using Cons.prems[of "Suc n"] by simp
  then have "expandArg s addr cs = cs"
    by (rule Cons.IH)
  moreover have "matchPlaceholder (ch # cs) = None"
    using Cons.prems[of 0] by simp
  ultimately show ?case
    by (simp add: expandArg_def del: matchPlaceholder.simps)
qed

text \<open>
  C8. With the host name \<^verbatim>\<open>client.test\<close> and the reverse-DNS name
  \<^verbatim>\<open>mx.example.org\<close> on the connection, \<^verbatim>\<open>expandCommand\<close> expands the one argument
  \<^verbatim>\<open>{source_host}/{source_rdns}/{foo}\<close> to \<^verbatim>\<open>client.test//{foo}\<close>: the host name is
  put in and the unknown placeholder is kept, but the recognized token
  \<^verbatim>\<open>{source_rdns}\<close> is replaced by the empty string and not by the name.
\<close>

theorem expandCommand_drops_source_rdns:
  "Conn (msgMeta (exState ''conn'' [''{source_host}/{source_rdns}/{foo}''])) = Some exConn \<and>
   Hostname exConn = ''client.test'' \<and> RDNSName exConn = Some ''mx.example.org'' \<and>
   expandCommand (exState ''conn'' [''{source_host}/{source_rdns}/{foo}'']) [] =
     (''/usr/bin/check'', [''client.test//{foo}''])"
  by (simp add: expandCommand_def expandArg_def expandPlaceholder_def exState_def
      CheckStateForMsg_def exCheck_def exMeta_def exConn_def isWordChar_def)

text \<open>
  C3. The token \<^verbatim>\<open>{source_rdns}\<close> expands to the empty string although the connection
  has the reverse-DNS name \<^verbatim>\<open>mx.example.org\<close>: both returns of that case of the switch
  give the empty string.
\<close>

theorem source_rdns_expands_to_empty:
  "Conn (msgMeta (exState ''conn'' [''{source_rdns}''])) = Some exConn \<and>
   RDNSName exConn = Some ''mx.example.org'' \<and>
   expandCommand (exState ''conn'' [''{source_rdns}'']) [] = (''/usr/bin/check'', [[]])"
  by (simp add: expandCommand_def expandArg_def expandPlaceholder_def exState_def
      CheckStateForMsg_def exCheck_def exMeta_def exConn_def isWordChar_def)

section \<open>Properties of the runner and the classifier\<close>

lemma run_reachesWait:
  assumes "reachesWait p hdr"
  shows "run s p =
         (case cmdWait p of
            Some e \<Rightarrow> errorRes s e (emptyResult\<lparr>Header := hdr\<rparr>) (cmdString p)
          | None \<Rightarrow> emptyResult\<lparr>Header := hdr\<rparr>)"
proof -
  obtain h rerr where hr: "readHeaderRes p = (h, rerr)"
    by (cases "readHeaderRes p")
  with assms have "h = hdr" "rerr = None \<or> rerr = Some EOF"
    "stdoutPipeErr p = None" "startErr p = None"
    by (simp_all add: reachesWait_def)
  with hr show ?thesis
    by (auto simp: run_def Let_def)
qed

lemma Header_Apply: "Header (Apply a res) = Header res"
  by (simp add: Apply_def)

lemma Header_errorRes: "Header (errorRes s e res cmdLine) = Header res"
  by (cases e) (simp_all add: errorRes_def Header_Apply split: option.splits)

text \<open>
  C4. A process that reaches the wait and exits with a code other than 0 for which the
  table has no entry gives the temporary rejection with code 450, tagged
  \<^verbatim>\<open>unexpected exit code\<close>, with the command line and the exit code; it is a
  rejection, and no quarantine.
\<close>

theorem unmapped_exit_code:
  assumes "reachesWait p hdr" and "waitRes p = Inr (Exited n)" and "n \<noteq> 0"
    and "actions (check s) n = None"
  shows "run s p =
         \<lparr>Reason = Some \<lparr>Code = 450, EnhancedCode = (0, 0, 0),
                          Message = ''Internal server error'', CheckName = ''command'',
                          Err = Some (ExitError (Exited n)),
                          ErrReason = ''unexpected exit code'',
                          Misc = [''cmd'' \<mapsto> MStr (cmdString p), ''exit_code'' \<mapsto> MInt n]\<rparr>,
          Reject = True, Quarantine = False, Header = hdr\<rparr>"
  using assms(2-4)
  by (simp add: run_reachesWait[OF assms(1)] cmdWait_def errorRes_def emptyResult_def)

theorem unmapped_exit_code_witness:
  "reachesWait (exProc [] (Exited 3)) [] \<and> waitRes (exProc [] (Exited 3)) = Inr (Exited 3) \<and>
   (3::int) \<noteq> 0 \<and> actions (check (exState ''body'' [])) 3 = None \<and>
   run (exState ''body'' []) (exProc [] (Exited 3)) =
     \<lparr>Reason = Some \<lparr>Code = 450, EnhancedCode = (0, 0, 0),
                      Message = ''Internal server error'', CheckName = ''command'',
                      Err = Some (ExitError (Exited 3)),
                      ErrReason = ''unexpected exit code'',
                      Misc = [''cmd'' \<mapsto> MStr ''/usr/bin/check'', ''exit_code'' \<mapsto> MInt 3]\<rparr>,
      Reject = True, Quarantine = False, Header = []\<rparr>"
proof -
  have h1: "reachesWait (exProc [] (Exited 3)) []"
    by (simp add: reachesWait_def exProc_def)
  have h2: "waitRes (exProc [] (Exited 3)) = Inr (Exited 3)"
    by (simp add: exProc_def)
  have h3: "(3::int) \<noteq> 0"
    by simp
  have h4: "actions (check (exState ''body'' [])) 3 = None"
    by (simp add: exState_def CheckStateForMsg_def exCheck_def)
  have c: "cmdString (exProc [] (Exited 3)) = ''/usr/bin/check''"
    by (simp add: exProc_def)
  show ?thesis
    using h1 h2 h3 h4 c unmapped_exit_code[OF h1 h2 h3 h4] by simp
qed

text \<open>
  C5. The check that \<^verbatim>\<open>New\<close> builds and \<^verbatim>\<open>Init\<close> completes from a
  configuration without \<^verbatim>\<open>code\<close> directives has the table that maps 1 to reject and
  2 to quarantine, and nothing else. With it, a process that exits with code 1 gives the
  permanent rejection: code 550, enhanced code 5.7.1, the message of the local policy,
  the command line and the exit code. A process that exits with code 2 gives a
  quarantine with the same reason, and no rejection.
\<close>

theorem default_table_reject_quarantine:
  assumes "New modName inst aliases inlineArgs = Inr c0"
    and "processRes env = Inr (st, [])" and "Init env c0 = Inr c"
    and "check s = c" and "reachesWait p hdr"
  shows "actions c 1 = Some rejectAction \<and> actions c 2 = Some quarantineAction \<and>
         dom (actions c) = {1, 2} \<and>
         (waitRes p = Inr (Exited 1) \<longrightarrow>
            run s p =
              \<lparr>Reason = Some \<lparr>Code = 550, EnhancedCode = (5, 7, 1),
                               Message = ''Message rejected for due to a local policy'',
                               CheckName = ''command'', Err = None, ErrReason = [],
                               Misc = [''cmd'' \<mapsto> MStr (cmdString p), ''exit_code'' \<mapsto> MInt 1]\<rparr>,
               Reject = True, Quarantine = False, Header = hdr\<rparr>) \<and>
         (waitRes p = Inr (Exited 2) \<longrightarrow>
            run s p =
              \<lparr>Reason = Some \<lparr>Code = 550, EnhancedCode = (5, 7, 1),
                               Message = ''Message rejected for due to a local policy'',
                               CheckName = ''command'', Err = None, ErrReason = [],
                               Misc = [''cmd'' \<mapsto> MStr (cmdString p), ''exit_code'' \<mapsto> MInt 2]\<rparr>,
               Reject = False, Quarantine = True, Header = hdr\<rparr>)"
proof -
  from assms(1) have a0: "actions c0 = [1 \<mapsto> rejectAction, 2 \<mapsto> quarantineAction]"
    by (auto simp: New_def rejectAction_def quarantineAction_def split: list.splits)
  from assms(2,3) have "c = c0\<lparr>stage := st\<rparr>"
    by (simp add: Init_def split: option.splits)
  with a0 have a: "actions c = [1 \<mapsto> rejectAction, 2 \<mapsto> quarantineAction]"
    by simp
  have t1: "actions c 1 = Some rejectAction" and t2: "actions c 2 = Some quarantineAction"
    by (simp_all add: a)
  have d: "dom (actions c) = {1, 2}"
    by (auto simp: a)
  have r1: "waitRes p = Inr (Exited 1) \<longrightarrow>
            run s p =
              \<lparr>Reason = Some \<lparr>Code = 550, EnhancedCode = (5, 7, 1),
                               Message = ''Message rejected for due to a local policy'',
                               CheckName = ''command'', Err = None, ErrReason = [],
                               Misc = [''cmd'' \<mapsto> MStr (cmdString p), ''exit_code'' \<mapsto> MInt 1]\<rparr>,
               Reject = True, Quarantine = False, Header = hdr\<rparr>"
    using t1 assms(4)
    by (simp add: run_reachesWait[OF assms(5)] cmdWait_def errorRes_def emptyResult_def
        Apply_def overrideReason_def rejectAction_def)
  have r2: "waitRes p = Inr (Exited 2) \<longrightarrow>
            run s p =
              \<lparr>Reason = Some \<lparr>Code = 550, EnhancedCode = (5, 7, 1),
                               Message = ''Message rejected for due to a local policy'',
                               CheckName = ''command'', Err = None, ErrReason = [],
                               Misc = [''cmd'' \<mapsto> MStr (cmdString p), ''exit_code'' \<mapsto> MInt 2]\<rparr>,
               Reject = False, Quarantine = True, Header = hdr\<rparr>"
    using t2 assms(4)
    by (simp add: run_reachesWait[OF assms(5)] cmdWait_def errorRes_def emptyResult_def
        Apply_def overrideReason_def quarantineAction_def)
  from t1 t2 d r1 r2 show ?thesis
    by blast
qed

theorem default_table_reject_quarantine_witness:
  "New ''command'' ''chk'' [] [''/usr/bin/check''] = Inr (exCheck [] []) \<and>
   processRes (exInitEnv ''body'') = Inr (''body'', []) \<and>
   Init (exInitEnv ''body'') (exCheck [] []) = Inr (exCheck ''body'' []) \<and>
   check (exState ''body'' []) = exCheck ''body'' [] \<and>
   reachesWait (exProc [] (Exited 1)) [] \<and> reachesWait (exProc [] (Exited 2)) [] \<and>
   actions (exCheck ''body'' []) 1 = Some rejectAction \<and>
   actions (exCheck ''body'' []) 2 = Some quarantineAction \<and>
   Reject (run (exState ''body'' []) (exProc [] (Exited 1))) \<and>
   \<not> Quarantine (run (exState ''body'' []) (exProc [] (Exited 1))) \<and>
   \<not> Reject (run (exState ''body'' []) (exProc [] (Exited 2))) \<and>
   Quarantine (run (exState ''body'' []) (exProc [] (Exited 2)))"
proof -
  have h1: "New ''command'' ''chk'' [] [''/usr/bin/check''] = Inr (exCheck [] [])"
    by (simp add: New_def exCheck_def rejectAction_def quarantineAction_def)
  have h2: "processRes (exInitEnv ''body'') = Inr (''body'', [])"
    by (simp add: exInitEnv_def)
  have h3: "Init (exInitEnv ''body'') (exCheck [] []) = Inr (exCheck ''body'' [])"
    by (simp add: Init_def exInitEnv_def exCheck_def)
  have h4: "check (exState ''body'' []) = exCheck ''body'' []"
    by (simp add: exState_def CheckStateForMsg_def)
  have h5: "reachesWait (exProc [] (Exited 1)) []" and h6: "reachesWait (exProc [] (Exited 2)) []"
    by (simp_all add: reachesWait_def exProc_def)
  have w1: "waitRes (exProc [] (Exited 1)) = Inr (Exited 1)"
    and w2: "waitRes (exProc [] (Exited 2)) = Inr (Exited 2)"
    by (simp_all add: exProc_def)
  show ?thesis
    using h1 h2 h3 h4 h5 h6 w1 w2
      default_table_reject_quarantine[OF h1 h2 h3 h4 h5]
      default_table_reject_quarantine[OF h1 h2 h3 h4 h6]
    by simp
qed

text \<open>
  C6, as the code has it. For a process that reaches the wait with the header \<open>hdr\<close>
  and exits with code 0, the result depends on the copy of the input to the child, which
  \<^verbatim>\<open>cmd.Wait\<close> reports, and never on the table of the check. When the copy did not
  fail, the result has no reason, no rejection and no quarantine, and carries \<open>hdr\<close>:
  the fields that \<^verbatim>\<open>ReadHeader\<close> returned, also those read before an output that
  ended early with \<^verbatim>\<open>io.EOF\<close>, and none for a process that wrote nothing. When the
  copy failed, \<^verbatim>\<open>cmd.Wait\<close> returns that error although the exit code is 0, and the
  result is the temporary rejection with code 450.
\<close>

theorem exit_zero_passes:
  assumes "reachesWait p hdr" and "waitRes p = Inr (Exited 0)"
  shows "(copyErr p = None \<longrightarrow>
            run s p = \<lparr>Reason = None, Reject = False, Quarantine = False, Header = hdr\<rparr>) \<and>
         (copyErr p = Some e \<longrightarrow>
            run s p =
              \<lparr>Reason = Some \<lparr>Code = 450, EnhancedCode = (0, 0, 0),
                               Message = ''Internal server error'', CheckName = ''command'',
                               Err = Some (OtherError e), ErrReason = [],
                               Misc = [''cmd'' \<mapsto> MStr (cmdString p)]\<rparr>,
               Reject = True, Quarantine = False, Header = hdr\<rparr>)"
  using assms(2)
  by (simp add: run_reachesWait[OF assms(1)] cmdWait_def emptyResult_def errorRes_def
      internalError_def)

theorem exit_zero_passes_witness:
  "reachesWait (exSilentProc (Exited 0)) [] \<and>
   waitRes (exSilentProc (Exited 0)) = Inr (Exited 0) \<and>
   copyErr (exSilentProc (Exited 0)) = None \<and>
   readHeaderRes (exSilentProc (Exited 0)) = ([], Some EOF) \<and>
   actions (exCheck ''body'' [] \<lparr>actions := (actions (exCheck ''body'' []))(0 \<mapsto> rejectAction)\<rparr>) 0
     = Some rejectAction \<and>
   run (CheckStateForMsg
          (exCheck ''body'' [] \<lparr>actions := (actions (exCheck ''body'' []))(0 \<mapsto> rejectAction)\<rparr>)
          exMeta)
       (exSilentProc (Exited 0)) = emptyResult \<and>
   reachesWait ((exProc [] (Exited 0))\<lparr>readHeaderRes := ([(''X-Checked'', ''yes'')], Some EOF)\<rparr>)
     [(''X-Checked'', ''yes'')] \<and>
   run (exState ''body'' [])
       ((exProc [] (Exited 0))\<lparr>readHeaderRes := ([(''X-Checked'', ''yes'')], Some EOF)\<rparr>) =
     \<lparr>Reason = None, Reject = False, Quarantine = False, Header = [(''X-Checked'', ''yes'')]\<rparr> \<and>
   copyErr ((exSilentProc (Exited 0))\<lparr>copyErr := Some ''read: input/output error''\<rparr>)
     = Some ''read: input/output error'' \<and>
   Reject (run (exState ''body'' [])
             ((exSilentProc (Exited 0))\<lparr>copyErr := Some ''read: input/output error''\<rparr>))"
proof -
  have h1: "reachesWait (exSilentProc (Exited 0)) []"
    by (simp add: reachesWait_def exSilentProc_def exProc_def)
  have h2: "waitRes (exSilentProc (Exited 0)) = Inr (Exited 0)"
    by (simp add: exSilentProc_def exProc_def)
  have h3: "copyErr (exSilentProc (Exited 0)) = None"
    by (simp add: exSilentProc_def exProc_def)
  have h4: "readHeaderRes (exSilentProc (Exited 0)) = ([], Some EOF)"
    by (simp add: exSilentProc_def exProc_def)
  have k1: "reachesWait ((exProc [] (Exited 0))\<lparr>readHeaderRes := ([(''X-Checked'', ''yes'')], Some EOF)\<rparr>)
     [(''X-Checked'', ''yes'')]"
    by (simp add: reachesWait_def exProc_def)
  have k2: "waitRes ((exProc [] (Exited 0))\<lparr>readHeaderRes := ([(''X-Checked'', ''yes'')], Some EOF)\<rparr>)
     = Inr (Exited 0)"
    and k3: "copyErr ((exProc [] (Exited 0))\<lparr>readHeaderRes := ([(''X-Checked'', ''yes'')], Some EOF)\<rparr>)
     = None"
    by (simp_all add: exProc_def)
  have m1: "reachesWait ((exSilentProc (Exited 0))\<lparr>copyErr := Some ''read: input/output error''\<rparr>) []"
    by (simp add: reachesWait_def exSilentProc_def exProc_def)
  have m2: "waitRes ((exSilentProc (Exited 0))\<lparr>copyErr := Some ''read: input/output error''\<rparr>)
     = Inr (Exited 0)"
    by (simp add: exSilentProc_def exProc_def)
  show ?thesis
    using h1 h2 h3 h4 k1 k2 k3
      exit_zero_passes[OF h1 h2, where s = "CheckStateForMsg
          (exCheck ''body'' [] \<lparr>actions := (actions (exCheck ''body'' []))(0 \<mapsto> rejectAction)\<rparr>)
          exMeta"]
      exit_zero_passes[OF k1 k2, where s = "exState ''body'' []"]
      exit_zero_passes[OF m1 m2, where s = "exState ''body'' []"
        and e = "''read: input/output error''"]
    by (simp add: emptyResult_def)
qed

text \<open>
  C6, as the claim states it, fails: a process that writes nothing and exits with
  code 0, while the copy of the input to it fails, gets the temporary rejection with
  code 450, with the default table.
\<close>

theorem exit_zero_copy_error_rejects:
  "waitRes ((exSilentProc (Exited 0))\<lparr>copyErr := Some ''read: input/output error''\<rparr>)
     = Inr (Exited 0) \<and>
   run (exState ''body'' [])
       ((exSilentProc (Exited 0))\<lparr>copyErr := Some ''read: input/output error''\<rparr>) =
     \<lparr>Reason = Some \<lparr>Code = 450, EnhancedCode = (0, 0, 0),
                      Message = ''Internal server error'', CheckName = ''command'',
                      Err = Some (OtherError ''read: input/output error''), ErrReason = [],
                      Misc = [''cmd'' \<mapsto> MStr ''/usr/bin/check'']\<rparr>,
      Reject = True, Quarantine = False, Header = []\<rparr>"
  by (simp add: run_def cmdWait_def errorRes_def internalError_def emptyResult_def
      exSilentProc_def exProc_def)

text \<open>
  C2, as the code has it. A process that is killed by a signal makes \<^verbatim>\<open>cmd.Wait\<close>
  return an \<^verbatim>\<open>*exec.ExitError\<close> whose exit code is -1, so \<^verbatim>\<open>errorRes\<close> looks -1 up
  in the table like any other code. When the table has no entry for -1, as the table of
  \<^verbatim>\<open>New\<close>, the result is the temporary rejection with code 450 and the message of
  an internal error, with the command line and the code -1, and no entry is applied.
  When the table has an entry for -1, its action is applied to the rejection with code
  550. When waiting itself fails, the error is no \<^verbatim>\<open>*exec.ExitError\<close> and the result
  is the temporary rejection with the command line for every table.
\<close>

theorem abnormal_termination:
  assumes "reachesWait p hdr"
  shows "(waitRes p = Inl e \<longrightarrow>
            run s p =
              \<lparr>Reason = Some \<lparr>Code = 450, EnhancedCode = (0, 0, 0),
                               Message = ''Internal server error'', CheckName = ''command'',
                               Err = Some (OtherError e), ErrReason = [],
                               Misc = [''cmd'' \<mapsto> MStr (cmdString p)]\<rparr>,
               Reject = True, Quarantine = False, Header = hdr\<rparr>) \<and>
         (waitRes p = Inr (Signaled sig) \<and> actions (check s) (- 1) = None \<longrightarrow>
            run s p =
              \<lparr>Reason = Some \<lparr>Code = 450, EnhancedCode = (0, 0, 0),
                               Message = ''Internal server error'', CheckName = ''command'',
                               Err = Some (ExitError (Signaled sig)),
                               ErrReason = ''unexpected exit code'',
                               Misc = [''cmd'' \<mapsto> MStr (cmdString p),
                                       ''exit_code'' \<mapsto> MInt (- 1)]\<rparr>,
               Reject = True, Quarantine = False, Header = hdr\<rparr>) \<and>
         (waitRes p = Inr (Signaled sig) \<and> actions (check s) (- 1) = Some a \<longrightarrow>
            run s p =
              Apply a
                \<lparr>Reason = Some \<lparr>Code = 550, EnhancedCode = (5, 7, 1),
                                 Message = ''Message rejected for due to a local policy'',
                                 CheckName = ''command'', Err = None, ErrReason = [],
                                 Misc = [''cmd'' \<mapsto> MStr (cmdString p),
                                         ''exit_code'' \<mapsto> MInt (- 1)]\<rparr>,
                 Reject = False, Quarantine = False, Header = hdr\<rparr>)"
  by (simp add: run_reachesWait[OF assms] cmdWait_def errorRes_def emptyResult_def
      internalError_def)

theorem abnormal_termination_witness:
  "reachesWait (exProc [] (Signaled 9)) [] \<and>
   waitRes (exProc [] (Signaled 9)) = Inr (Signaled 9) \<and>
   actions (check (exState ''body'' [])) (- 1) = None \<and>
   run (exState ''body'' []) (exProc [] (Signaled 9)) =
     \<lparr>Reason = Some \<lparr>Code = 450, EnhancedCode = (0, 0, 0),
                      Message = ''Internal server error'', CheckName = ''command'',
                      Err = Some (ExitError (Signaled 9)),
                      ErrReason = ''unexpected exit code'',
                      Misc = [''cmd'' \<mapsto> MStr ''/usr/bin/check'',
                              ''exit_code'' \<mapsto> MInt (- 1)]\<rparr>,
      Reject = True, Quarantine = False, Header = []\<rparr> \<and>
   waitRes ((exProc [] (Exited 0))\<lparr>waitRes := Inl ''wait: no child processes''\<rparr>)
     = Inl ''wait: no child processes'' \<and>
   Reject (run (exState ''body'' [])
             ((exProc [] (Exited 0))\<lparr>waitRes := Inl ''wait: no child processes''\<rparr>)) \<and>
   actions (exCheck ''body'' [] \<lparr>actions := (actions (exCheck ''body'' []))(- 1 \<mapsto> quarantineAction)\<rparr>)
     (- 1) = Some quarantineAction \<and>
   Quarantine (run (CheckStateForMsg
          (exCheck ''body'' [] \<lparr>actions := (actions (exCheck ''body'' []))(- 1 \<mapsto> quarantineAction)\<rparr>)
          exMeta) (exProc [] (Signaled 9)))"
proof -
  have h1: "reachesWait (exProc [] (Signaled 9)) []"
    by (simp add: reachesWait_def exProc_def)
  have h2: "waitRes (exProc [] (Signaled 9)) = Inr (Signaled 9)"
    by (simp add: exProc_def)
  have h3: "actions (check (exState ''body'' [])) (- 1) = None"
    by (simp add: exState_def CheckStateForMsg_def exCheck_def)
  have c: "cmdString (exProc [] (Signaled 9)) = ''/usr/bin/check''"
    by (simp add: exProc_def)
  have h4: "reachesWait ((exProc [] (Exited 0))\<lparr>waitRes := Inl ''wait: no child processes''\<rparr>) []"
    by (simp add: reachesWait_def exProc_def)
  have h5: "waitRes ((exProc [] (Exited 0))\<lparr>waitRes := Inl ''wait: no child processes''\<rparr>)
     = Inl ''wait: no child processes''"
    by simp
  show ?thesis
    using h1 h2 h3 h5 c
      abnormal_termination[OF h1, where s = "exState ''body'' []" and sig = 9]
      abnormal_termination[OF h4, where s = "exState ''body'' []"
        and e = "''wait: no child processes''"]
      abnormal_termination[OF h1, where s = "CheckStateForMsg
          (exCheck ''body'' [] \<lparr>actions := (actions (exCheck ''body'' []))(- 1 \<mapsto> quarantineAction)\<rparr>)
          exMeta" and sig = 9 and a = quarantineAction]
    by (simp add: CheckStateForMsg_def Apply_def quarantineAction_def)
qed

text \<open>
  C2, as the claim states it, fails: with an entry that maps the code -1 to reject, the
  action of that entry is applied to the process killed by signal 9, which gets the
  permanent rejection with code 550.
\<close>

theorem signal_applies_table_entry:
  "run (CheckStateForMsg
          (exCheck ''body'' [] \<lparr>actions := (actions (exCheck ''body'' []))(- 1 \<mapsto> rejectAction)\<rparr>)
          exMeta)
       (exProc [] (Signaled 9)) =
     Apply rejectAction
       \<lparr>Reason = Some \<lparr>Code = 550, EnhancedCode = (5, 7, 1),
                        Message = ''Message rejected for due to a local policy'',
                        CheckName = ''command'', Err = None, ErrReason = [],
                        Misc = [''cmd'' \<mapsto> MStr ''/usr/bin/check'',
                                ''exit_code'' \<mapsto> MInt (- 1)]\<rparr>,
        Reject = False, Quarantine = False, Header = []\<rparr> \<and>
   run (CheckStateForMsg
          (exCheck ''body'' [] \<lparr>actions := (actions (exCheck ''body'' []))(- 1 \<mapsto> rejectAction)\<rparr>)
          exMeta)
       (exProc [] (Signaled 9)) =
     \<lparr>Reason = Some \<lparr>Code = 550, EnhancedCode = (5, 7, 1),
                      Message = ''Message rejected for due to a local policy'',
                      CheckName = ''command'', Err = None, ErrReason = [],
                      Misc = [''cmd'' \<mapsto> MStr ''/usr/bin/check'',
                              ''exit_code'' \<mapsto> MInt (- 1)]\<rparr>,
      Reject = True, Quarantine = False, Header = []\<rparr>"
  by (simp add: run_def cmdWait_def errorRes_def emptyResult_def Apply_def overrideReason_def
      rejectAction_def exProc_def CheckStateForMsg_def exCheck_def)

text \<open>
  C10. Whenever the header \<open>hdr\<close> was read, the result of the run carries it, however
  the process ends; and \<^verbatim>\<open>errorRes\<close> never changes the header of the result it is
  given, for an error that is no exit error, for an exit code without an entry and for
  an exit code with an entry of any action.
\<close>

theorem header_kept_on_failure:
  assumes "reachesWait p hdr"
  shows "Header (run s p) = hdr \<and> Header (errorRes s e res cmdLine) = Header res"
  by (simp add: run_reachesWait[OF assms] Header_errorRes emptyResult_def split: option.splits)

theorem header_kept_on_failure_witness:
  "reachesWait (exProc [(''X-Checked'', ''yes'')] (Exited 1)) [(''X-Checked'', ''yes'')] \<and>
   cmdWait (exProc [(''X-Checked'', ''yes'')] (Exited 1)) = Some (ExitError (Exited 1)) \<and>
   Reject (run (exState ''body'' []) (exProc [(''X-Checked'', ''yes'')] (Exited 1))) \<and>
   Header (run (exState ''body'' []) (exProc [(''X-Checked'', ''yes'')] (Exited 1)))
     = [(''X-Checked'', ''yes'')]"
proof -
  have h: "reachesWait (exProc [(''X-Checked'', ''yes'')] (Exited 1)) [(''X-Checked'', ''yes'')]"
    by (simp add: reachesWait_def exProc_def)
  have w: "cmdWait (exProc [(''X-Checked'', ''yes'')] (Exited 1)) = Some (ExitError (Exited 1))"
    by (simp add: cmdWait_def exProc_def)
  have r: "Reject (run (exState ''body'' []) (exProc [(''X-Checked'', ''yes'')] (Exited 1)))"
    by (simp add: run_reachesWait[OF h] w errorRes_def exState_def CheckStateForMsg_def
        exCheck_def Apply_def rejectAction_def)
  show ?thesis
    using h w r header_kept_on_failure[OF h, where s = "exState ''body'' []"]
    by simp
qed

section \<open>Properties of the stage methods\<close>

text \<open>
  C9. On the body stage, when the body cannot be opened, \<^verbatim>\<open>CheckBody\<close> returns the
  temporary rejection with code 450 that carries the error of opening and the command
  line, the command name and the expanded arguments joined by spaces; it leaves the
  state as it is and makes no invocation.
\<close>

theorem body_open_failure:
  assumes "stage (check s) = StageBody"
  shows "CheckBody sys wh s hdr (Inl e) =
         (\<lparr>Reason = Some \<lparr>Code = 450, EnhancedCode = (0, 0, 0),
                           Message = ''Internal server error'', CheckName = ''command'',
                           Err = Some e, ErrReason = [],
                           Misc = [''cmd'' \<mapsto>
                                     MStr (cmd (check s) @ '' '' @
                                           Join (map (expandArg s []) (cmdArgs (check s))) '' '')]\<rparr>,
           Reject = True, Quarantine = False, Header = []\<rparr>, s, [])"
  using assms
  by (simp add: CheckBody_def expandCommand_def internalError_def emptyResult_def)

theorem body_open_failure_witness:
  "stage (check (exState ''body'' [''-i'', ''{msg_id}''])) = StageBody \<and>
   CheckBody exOs exWriteHeader (exState ''body'' [''-i'', ''{msg_id}'']) []
       (Inl (OtherError ''open: no such file'')) =
     (\<lparr>Reason = Some \<lparr>Code = 450, EnhancedCode = (0, 0, 0),
                       Message = ''Internal server error'', CheckName = ''command'',
                       Err = Some (OtherError ''open: no such file''), ErrReason = [],
                       Misc = [''cmd'' \<mapsto> MStr ''/usr/bin/check -i msg1'']\<rparr>,
       Reject = True, Quarantine = False, Header = []\<rparr>,
      exState ''body'' [''-i'', ''{msg_id}''], [])"
proof -
  have h: "stage (check (exState ''body'' [''-i'', ''{msg_id}''])) = StageBody"
    by (simp add: exState_def CheckStateForMsg_def exCheck_def StageBody_def)
  have c: "cmd (check (exState ''body'' [''-i'', ''{msg_id}''])) = ''/usr/bin/check''"
    "cmdArgs (check (exState ''body'' [''-i'', ''{msg_id}''])) = [''-i'', ''{msg_id}'']"
    by (simp_all add: exState_def CheckStateForMsg_def exCheck_def)
  have e: "expandArg (exState ''body'' [''-i'', ''{msg_id}'']) [] ''-i'' = ''-i''"
    "expandArg (exState ''body'' [''-i'', ''{msg_id}'']) [] ''{msg_id}'' = ''msg1''"
    by (simp_all add: expandArg_def expandPlaceholder_def exState_def CheckStateForMsg_def
        exMeta_def isWordChar_def)
  show ?thesis
    using h body_open_failure[OF h, of exOs exWriteHeader "[]" "OtherError ''open: no such file''"]
    by (simp add: c e)
qed

lemma check_handle: "check (fst (snd (handle sys wh s ev))) = check s"
  by (cases ev)
    (simp_all add: CheckConnection_def CheckSender_def CheckRcpt_def CheckBody_def Let_def
      split: prod.splits sum.splits)

lemma check_stateAfter: "check (stateAfter sys wh s evs) = check s"
proof (induction evs arbitrary: s)
  case Nil
  show ?case by (simp add: stateAfter_def)
next
  case (Cons ev evs)
  have "stateAfter sys wh s (ev # evs) = stateAfter sys wh (fst (snd (handle sys wh s ev))) evs"
    by (simp add: stateAfter_def split: prod.splits)
  with Cons[of "fst (snd (handle sys wh s ev))"] show ?case
    by (simp add: check_handle)
qed

lemma invocations_Cons:
  "invocations sys wh s (ev # evs) =
     snd (snd (handle sys wh s ev)) @ invocations sys wh (fst (snd (handle sys wh s ev))) evs"
  by (simp add: invocations_def split: prod.splits)

lemma handle_invocations_le:
  "length (snd (snd (handle sys wh s ev))) \<le> (if evStage ev = stage (check s) then 1 else 0)"
  by (cases ev)
    (auto simp: CheckConnection_def CheckSender_def CheckRcpt_def CheckBody_def Let_def
      split: prod.splits sum.splits)

lemma invocations_le:
  "length (invocations sys wh s evs) \<le> length (filter (\<lambda>ev. evStage ev = stage (check s)) evs)"
proof (induction evs arbitrary: s)
  case Nil
  show ?case by (simp add: invocations_def)
next
  case (Cons ev evs)
  have "length (invocations sys wh (fst (snd (handle sys wh s ev))) evs)
        \<le> length (filter (\<lambda>ev. evStage ev = stage (check s)) evs)"
    using Cons[of "fst (snd (handle sys wh s ev))"] by (simp add: check_handle)
  moreover note handle_invocations_le[of sys wh s ev]
  ultimately show ?case
    by (simp add: invocations_Cons split: if_splits)
qed

lemma rcpt_stage_handle:
  assumes "stage (check s) = StageRcpt"
  shows "length (snd (snd (handle sys wh s ev))) = length (rcptAddrs [ev])"
  using assms
  by (cases ev)
    (auto simp: CheckConnection_def CheckSender_def CheckRcpt_def CheckBody_def Let_def
      StageRcpt_def StageConnection_def StageSender_def StageBody_def
      split: prod.splits sum.splits)

lemma rcptAddrs_Cons: "rcptAddrs (ev # evs) = rcptAddrs [ev] @ rcptAddrs evs"
  by (cases ev) simp_all

lemma rcpt_stage_invocations:
  "stage (check s) = StageRcpt \<Longrightarrow>
   length (invocations sys wh s evs) = length (rcptAddrs evs)"
proof (induction evs arbitrary: s)
  case Nil
  show ?case by (simp add: invocations_def)
next
  case (Cons ev evs)
  have "length (invocations sys wh (fst (snd (handle sys wh s ev))) evs) = length (rcptAddrs evs)"
    using Cons by (simp add: check_handle)
  with rcpt_stage_handle[OF Cons.prems, of sys wh ev] show ?case
    by (simp add: invocations_Cons rcptAddrs_Cons[of ev evs])
qed

text \<open>
  C7, as the code has it. A stage method whose stage is not the configured one returns
  the empty result and makes no invocation; the sender and the recipient are recorded
  all the same. Only the events of the configured stage invoke the command, at most once
  each, so a transaction makes at most as many invocations as it has events of that
  stage. On the recipient stage this is one invocation for every recipient, not one for
  the transaction.
\<close>

theorem stage_gating:
  "(stage (check s) \<noteq> StageConnection \<longrightarrow> CheckConnection sys s = (emptyResult, s, [])) \<and>
   (stage (check s) \<noteq> StageSender \<longrightarrow>
      CheckSender sys s addr = (emptyResult, s\<lparr>mailFrom := addr\<rparr>, [])) \<and>
   (stage (check s) \<noteq> StageRcpt \<longrightarrow>
      CheckRcpt sys s addr = (emptyResult, s\<lparr>rcpts := rcpts s @ [addr]\<rparr>, [])) \<and>
   (stage (check s) \<noteq> StageBody \<longrightarrow> CheckBody sys wh s hdr body = (emptyResult, s, [])) \<and>
   length (invocations sys wh s evs)
     \<le> length (filter (\<lambda>ev. evStage ev = stage (check s)) evs) \<and>
   (stage (check s) = StageRcpt \<longrightarrow> length (invocations sys wh s evs) = length (rcptAddrs evs))"
  by (simp add: CheckConnection_def CheckSender_def CheckRcpt_def CheckBody_def
      invocations_le rcpt_stage_invocations)

theorem stage_gating_witness:
  "stage (check (exState ''body'' [])) \<noteq> StageConnection \<and>
   stage (check (exState ''body'' [])) \<noteq> StageSender \<and>
   stage (check (exState ''body'' [])) \<noteq> StageRcpt \<and>
   stage (check (exState ''rcpt'' [])) \<noteq> StageBody \<and>
   stage (check (exState ''rcpt'' [])) = StageRcpt \<and>
   CheckConnection exOs (exState ''body'' []) = (emptyResult, exState ''body'' [], []) \<and>
   CheckSender exOs (exState ''body'' []) ''a@x.test'' =
     (emptyResult, (exState ''body'' [])\<lparr>mailFrom := ''a@x.test''\<rparr>, []) \<and>
   CheckRcpt exOs (exState ''body'' []) ''a@x.test'' =
     (emptyResult, (exState ''body'' [])\<lparr>rcpts := [''a@x.test'']\<rparr>, []) \<and>
   CheckBody exOs exWriteHeader (exState ''rcpt'' []) [] (Inr ''text'') =
     (emptyResult, exState ''rcpt'' [], []) \<and>
   length (invocations exOs exWriteHeader (exState ''body'' [])
             [EvConnection, EvSender ''s@x.test'', EvRcpt ''a@x.test'', EvRcpt ''b@x.test'',
              EvBody [] (Inr ''text'')]) \<le> 1 \<and>
   length (invocations exOs exWriteHeader (exState ''rcpt'' [])
             [EvConnection, EvSender ''s@x.test'', EvRcpt ''a@x.test'', EvRcpt ''b@x.test'',
              EvBody [] (Inr ''text'')]) = 2"
proof -
  have b: "stage (check (exState ''body'' [])) = ''body''"
    and r: "stage (check (exState ''rcpt'' [])) = ''rcpt''"
    and e: "rcpts (exState ''body'' []) = []"
    by (simp_all add: exState_def CheckStateForMsg_def exCheck_def)
  show ?thesis
    using b r e
      stage_gating[where s = "exState ''body'' []" and sys = exOs and addr = "''a@x.test''"
        and wh = exWriteHeader and hdr = "[]" and body = "Inr ''text''"
        and evs = "[EvConnection, EvSender ''s@x.test'', EvRcpt ''a@x.test'', EvRcpt ''b@x.test'',
          EvBody [] (Inr ''text'')]"]
      stage_gating[where s = "exState ''rcpt'' []" and sys = exOs and addr = "''a@x.test''"
        and wh = exWriteHeader and hdr = "[]" and body = "Inr ''text''"
        and evs = "[EvConnection, EvSender ''s@x.test'', EvRcpt ''a@x.test'', EvRcpt ''b@x.test'',
          EvBody [] (Inr ''text'')]"]
    by (simp add: StageConnection_def StageSender_def StageRcpt_def StageBody_def)
qed

text \<open>
  C7, as the claim states it, fails in its last part: on the recipient stage a
  transaction with two recipients invokes the command twice.
\<close>

theorem rcpt_stage_invokes_twice:
  "invocations exOs exWriteHeader (exState ''rcpt'' [''-a'', ''{address}''])
     [EvRcpt ''a@x.test'', EvRcpt ''b@x.test''] =
   [(''/usr/bin/check'', [''-a'', ''a@x.test''], []),
    (''/usr/bin/check'', [''-a'', ''b@x.test''], [])]"
  by (simp add: invocations_def CheckRcpt_def expandCommand_def expandArg_def
      expandPlaceholder_def exState_def CheckStateForMsg_def exCheck_def StageRcpt_def
      isWordChar_def Let_def)

lemma rcpts_handle: "rcpts (fst (snd (handle sys wh s ev))) = rcpts s @ rcptAddrs [ev]"
  by (cases ev)
    (simp_all add: CheckConnection_def CheckSender_def CheckRcpt_def CheckBody_def Let_def
      split: prod.splits sum.splits)

lemma rcpts_stateAfter: "rcpts (stateAfter sys wh s evs) = rcpts s @ rcptAddrs evs"
proof (induction evs arbitrary: s)
  case Nil
  show ?case by (simp add: stateAfter_def)
next
  case (Cons ev evs)
  have "stateAfter sys wh s (ev # evs) = stateAfter sys wh (fst (snd (handle sys wh s ev))) evs"
    by (simp add: stateAfter_def split: prod.splits)
  with Cons[of "fst (snd (handle sys wh s ev))"] show ?case
    by (simp add: rcpts_handle rcptAddrs_Cons[of ev evs])
qed

lemma expandArg_rcpts: "expandArg s addr ''{rcpts}'' = Join (rcpts s) [CHR 0x0A]"
  by (simp add: expandArg_def expandPlaceholder_def isWordChar_def)

text \<open>
  C1, as the code has it. In every state the token \<^verbatim>\<open>{rcpts}\<close> expands to the
  recipients of the state joined by newlines. After the events \<open>evs\<close> the state holds
  the recipients of these events, in their order, after those it had. \<^verbatim>\<open>CheckRcpt\<close>
  appends the address before it expands the command: on the recipient stage its one
  invocation has the arguments expanded in the state whose recipients end with the
  current address, so the invocation for the N-th recipient uses the first N recipients,
  the N-th included and none after it.
\<close>

theorem rcpts_token_includes_current:
  assumes "stage (check s) = StageRcpt"
  shows "expandArg s' addr' ''{rcpts}'' = Join (rcpts s') [CHR 0x0A] \<and>
         rcpts (stateAfter sys wh s evs) = rcpts s @ rcptAddrs evs \<and>
         snd (snd (CheckRcpt sys (stateAfter sys wh s evs) addr)) =
           [(cmd (check s),
             map (expandArg ((stateAfter sys wh s evs)\<lparr>rcpts := rcpts s @ rcptAddrs evs @ [addr]\<rparr>)
                    addr)
               (cmdArgs (check s)),
             [])]"
  using assms
  by (simp add: expandArg_rcpts rcpts_stateAfter CheckRcpt_def expandCommand_def
      check_stateAfter Let_def)

theorem rcpts_token_includes_current_witness:
  "stage (check (exState ''rcpt'' [''{rcpts}''])) = StageRcpt \<and>
   rcpts (stateAfter exOs exWriteHeader (exState ''rcpt'' [''{rcpts}''])
            [EvSender ''s@x.test'', EvRcpt ''a@x.test'']) = [''a@x.test''] \<and>
   snd (snd (CheckRcpt exOs
               (stateAfter exOs exWriteHeader (exState ''rcpt'' [''{rcpts}''])
                  [EvSender ''s@x.test'', EvRcpt ''a@x.test''])
               ''b@x.test'')) =
     [(''/usr/bin/check'', [''a@x.test'' @ [CHR 0x0A] @ ''b@x.test''], [])]"
proof -
  have h: "stage (check (exState ''rcpt'' [''{rcpts}''])) = StageRcpt"
    by (simp add: exState_def CheckStateForMsg_def exCheck_def StageRcpt_def)
  have c: "cmd (check (exState ''rcpt'' [''{rcpts}''])) = ''/usr/bin/check''"
    "cmdArgs (check (exState ''rcpt'' [''{rcpts}''])) = [''{rcpts}'']"
    "rcpts (exState ''rcpt'' [''{rcpts}'']) = []"
    by (simp_all add: exState_def CheckStateForMsg_def exCheck_def)
  show ?thesis
    using h rcpts_token_includes_current[OF h,
        where sys = exOs and wh = exWriteHeader
          and evs = "[EvSender ''s@x.test'', EvRcpt ''a@x.test'']" and addr = "''b@x.test''"
          and s' = "(stateAfter exOs exWriteHeader (exState ''rcpt'' [''{rcpts}''])
                  [EvSender ''s@x.test'', EvRcpt ''a@x.test''])\<lparr>rcpts := [''a@x.test'', ''b@x.test'']\<rparr>"
          and addr' = "''b@x.test''"]
    by (simp add: c)
qed

text \<open>
  C1, as the claim states it, fails: on the recipient stage the invocation for the first
  recipient, made in a state without recipients, already has the address of that
  recipient as the expansion of \<^verbatim>\<open>{rcpts}\<close>.
\<close>

theorem rcpts_token_has_current_recipient:
  "rcpts (exState ''rcpt'' [''{rcpts}'']) = [] \<and>
   snd (snd (CheckRcpt exOs (exState ''rcpt'' [''{rcpts}'']) ''a@x.test'')) =
     [(''/usr/bin/check'', [''a@x.test''], [])]"
  by (simp add: CheckRcpt_def expandCommand_def expandArg_def expandPlaceholder_def
      exState_def CheckStateForMsg_def exCheck_def StageRcpt_def isWordChar_def Let_def)

end
